theory Spec2Isabelle
  imports Main
begin

section \<open>The rendered tree\<close>

text \<open>
  The component of \<^verbatim>\<open>src/components/sections/CommunitySupportedNumbers.tsx\<close> is an
  arrow function whose body is one JSX expression. A JSX element is a tag, a list of
  attributes in source order and a list of children; an attribute is written either as
  a string literal (\<^verbatim>\<open>className='...'\<close>) or as a numeric expression
  (\<^verbatim>\<open>width={17}\<close>). JSX text is trimmed line by line, and a comment expression
  \<^verbatim>\<open>{/* ... */}\<close> contributes no child.
\<close>

datatype attr_value = Str string | Num nat

datatype node =
    Element string "(string \<times> attr_value) list" "node list"
  | Text string

fun tag :: "node \<Rightarrow> string" where
  "tag (Element t as cs) = t"
| "tag (Text s) = []"

fun attrs :: "node \<Rightarrow> (string \<times> attr_value) list" where
  "attrs (Element t as cs) = as"
| "attrs (Text s) = []"

fun children :: "node \<Rightarrow> node list" where
  "children (Element t as cs) = cs"
| "children (Text s) = []"

definition attr :: "string \<Rightarrow> node \<Rightarrow> attr_value option" where
  "attr k n = map_of (attrs n) k"

section \<open>The component\<close>

text \<open>
  The body of \<^verbatim>\<open>CommunitySupportedNumbers\<close>, element by element. The function is
  declared \<^verbatim>\<open>() => { return (...) }\<close>: it has no parameter, reads no variable and
  calls no hook, so it is a constant.
\<close>

definition right_arrow :: node where
  "right_arrow =
     Element ''svg''
       [(''className'', Str ''relative left-2 text-[#D8D8D8] transition-all duration-300 ease-in-out group-hover:left-4''),
        (''width'', Num 17),
        (''height'', Num 14),
        (''viewBox'', Str ''0 0 17 14''),
        (''fill'', Str ''none''),
        (''stroke'', Str ''currentColor''),
        (''xmlns'', Str ''http://www.w3.org/2000/svg'')]
       [Element ''path''
          [(''d'', Str ''M0 7H15M15 7L9.78261 1M15 7L9.78261 13''), (''strokeWidth'', Num 2)] []]"

definition chevron :: node where
  "chevron =
     Element ''svg''
       [(''className'', Str ''hidden h-full w-auto text-[#191919] lg:block''),
        (''width'', Num 51),
        (''height'', Num 192),
        (''viewBox'', Str ''0 0 51 192''),
        (''fill'', Str ''currentColor''),
        (''xmlns'', Str ''http://www.w3.org/2000/svg'')]
       [Element ''path'' [(''d'', Str ''M0 0H1L51 96L1 192H0L50 96L0 0Z'')] []]"

definition heading_block :: node where
  "heading_block =
     Element ''div'' [(''className'', Str ''col-span-3 lg:col-span-1 lg:py-12'')]
       [Element ''h2'' [(''className'', Str ''font-gradual text-2xl font-bold text-[#C2C2C2]'')]
          [Text ''Supported by the community''],
        Element ''Link''
          [(''href'', Str ''#''), (''className'', Str ''group mt-3 inline-flex items-center'')]
          [Text ''Join them now'', right_arrow]]"

definition stars_block :: node where
  "stars_block =
     Element ''div'' [(''className'', Str ''text-center lg:py-12'')]
       [Element ''p''
          [(''className'', Str ''bg-gradient-to-r from-[#FB540C] to-[#DD7D31] bg-clip-text font-gradual text-[2.5rem] font-bold leading-none text-transparent sm:text-[3.5rem]'')]
          [Text ''20k''],
        Element ''h3'' [(''className'', Str ''mt-1 text-sm sm:text-base'')] [Text ''Github Stars'']]"

definition discord_block :: node where
  "discord_block =
     Element ''div'' [(''className'', Str ''text-center lg:py-12'')]
       [Element ''p''
          [(''className'', Str ''bg-gradient-to-r from-[#B59C53] to-[#A5A76B] bg-clip-text font-gradual text-[2.5rem] font-bold leading-none text-transparent sm:text-[3.5rem]'')]
          [Text ''10k''],
        Element ''h3'' [(''className'', Str ''mt-1 text-sm sm:text-base'')] [Text ''Discord Users'']]"

definition contributors_block :: node where
  "contributors_block =
     Element ''div'' [(''className'', Str ''text-center lg:py-12'')]
       [Element ''p''
          [(''className'', Str ''bg-gradient-to-r from-[#93B083] to-[#7BBB9F] bg-clip-text font-gradual text-[2.5rem] font-bold leading-none text-transparent sm:text-[3.5rem]'')]
          [Text ''100''],
        Element ''h3'' [(''className'', Str ''mt-1 text-sm sm:text-base'')] [Text ''Contributors'']]"

definition grid_container :: node where
  "grid_container =
     Element ''div''
       [(''className'', Str ''mx-auto grid w-full max-w-[1280px] grid-cols-3 gap-y-12 gap-x-8 px-5 sm:gap-14 sm:px-10 lg:grid-cols-[1fr_51px_1fr_1fr_1fr] lg:items-center'')]
       [heading_block, chevron, stars_block, discord_block, contributors_block]"

definition CommunitySupportedNumbers :: node where
  "CommunitySupportedNumbers =
     Element ''div'' [(''className'', Str ''mt-24 border-y border-[#191919] py-12 lg:py-0'')]
       [grid_container]"

section \<open>The configuration and the render\<close>

text \<open>
  The specification describes the component as \<^verbatim>\<open>MetricsStrip\<close>, a function of a
  configuration. The source declares no props type, so the record below follows the
  data model of the specification (section 3): it is the value a host page would pass.
  React calls a function component with the props object; the arrow function binds no
  parameter, so the props never reach the body. \<open>MetricsStrip\<close> is that call.
  (The field \<open>val\<close> is the one the specification calls \<^verbatim>\<open>value\<close>.)
\<close>

record Metric =
  val :: string
  label :: string
  gradientStart :: string
  gradientEnd :: string

record MetricsStripConfig =
  heading :: string
  ctaLabel :: string
  ctaHref :: string
  metrics :: "Metric list"

definition MetricsStrip :: "MetricsStripConfig \<Rightarrow> node" where
  "MetricsStrip cfg = CommunitySupportedNumbers"

text \<open>
  The reference content: the literals of the source, read as a configuration
  (heading of line 8, link of lines 9-10, the three metrics of lines 36-53).
\<close>

definition reference_config :: MetricsStripConfig where
  "reference_config =
     \<lparr>heading = ''Supported by the community'',
      ctaLabel = ''Join them now'',
      ctaHref = ''#'',
      metrics =
        [\<lparr>val = ''20k'', label = ''Github Stars'',
          gradientStart = ''#FB540C'', gradientEnd = ''#DD7D31''\<rparr>,
         \<lparr>val = ''10k'', label = ''Discord Users'',
          gradientStart = ''#B59C53'', gradientEnd = ''#A5A76B''\<rparr>,
         \<lparr>val = ''100'', label = ''Contributors'',
          gradientStart = ''#93B083'', gradientEnd = ''#7BBB9F''\<rparr>]\<rparr>"

text \<open>
  A host page re-renders by calling the component again; \<open>renders n cfg\<close> is the
  list of the trees returned by \<open>n\<close> successive passes over the same configuration.
\<close>

fun renders :: "nat \<Rightarrow> MetricsStripConfig \<Rightarrow> node list" where
  "renders 0 cfg = []"
| "renders (Suc n) cfg = MetricsStrip cfg # renders n cfg"

section \<open>Reading a rendered tree\<close>

text \<open>All nodes of a tree in document order (the node itself first).\<close>

fun descendants :: "node \<Rightarrow> node list" where
  "descendants (Element t as cs) = Element t as cs # concat (map descendants cs)"
| "descendants (Text s) = [Text s]"

text \<open>
  A metric display block is a \<^verbatim>\<open>div\<close> holding the value in a \<^verbatim>\<open>p\<close> and the
  caption in an \<^verbatim>\<open>h3\<close>; \<open>metric_of\<close> reads the pair (value, caption) off such a block.
\<close>

fun metric_of :: "node \<Rightarrow> (string \<times> string) option" where
  "metric_of (Element t as [Element t1 as1 [Text v], Element t2 as2 [Text l]]) =
     (if t = ''div'' \<and> t1 = ''p'' \<and> t2 = ''h3'' then Some (v, l) else None)"
| "metric_of n = None"

definition metric_blocks :: "node \<Rightarrow> node list" where
  "metric_blocks t = filter (\<lambda>n. metric_of n \<noteq> None) (descendants t)"

definition rendered_metrics :: "node \<Rightarrow> (string \<times> string) list" where
  "rendered_metrics t = map (\<lambda>n. the (metric_of n)) (metric_blocks t)"

text \<open>
  The heading/CTA block is a \<^verbatim>\<open>div\<close> holding the \<^verbatim>\<open>h2\<close> and the link;
  \<open>heading_of\<close> reads (heading text, link target, link text) off such a block.
\<close>

fun heading_of :: "node \<Rightarrow> (string \<times> attr_value option \<times> string) option" where
  "heading_of (Element t as [Element t1 as1 [Text h], Element t2 as2 (Text c # rest)]) =
     (if t = ''div'' \<and> t1 = ''h2'' \<and> t2 = ''Link''
      then Some (h, map_of as2 ''href'', c) else None)"
| "heading_of n = None"

definition heading_blocks :: "node \<Rightarrow> node list" where
  "heading_blocks t = filter (\<lambda>n. heading_of n \<noteq> None) (descendants t)"

definition elements_named :: "string \<Rightarrow> node \<Rightarrow> node list" where
  "elements_named t n = filter (\<lambda>m. tag m = t) (descendants n)"

text \<open>The text nodes of a tree, in document order.\<close>

fun text_of :: "node \<Rightarrow> string option" where
  "text_of (Text s) = Some s"
| "text_of (Element t as cs) = None"

definition texts :: "node \<Rightarrow> string list" where
  "texts n = map (\<lambda>m. the (text_of m)) (filter (\<lambda>m. text_of m \<noteq> None) (descendants n))"

section \<open>Utility classes\<close>

text \<open>
  The component computes no layout: it names utility classes of the site's stylesheet
  (Tailwind), and the browser lays the tree out. The definitions of this section give
  the classes that occur in the source their documented meaning, as far as the layout,
  the gradient and the hover shift depend on it:
  \<^item> a \<^verbatim>\<open>className\<close> is a list of tokens separated by spaces;
  \<^item> \<^verbatim>\<open>sm:u\<close> is the utility \<^verbatim>\<open>u\<close> from 640px of viewport width,
    \<^verbatim>\<open>lg:u\<close> from 1024px; a breakpoint's rule overrides the unprefixed one, and
    \<^verbatim>\<open>lg:\<close> overrides \<^verbatim>\<open>sm:\<close>;
  \<^item> \<^verbatim>\<open>group-hover:u\<close> is \<^verbatim>\<open>u\<close> while the pointer is over the enclosing
    element of class \<^verbatim>\<open>group\<close>.
\<close>

fun split_on :: "char \<Rightarrow> string \<Rightarrow> string list" where
  "split_on c [] = [[]]"
| "split_on c (x # xs) =
     (if x = c then [] # split_on c xs
      else (case split_on c xs of [] \<Rightarrow> [[x]] | w # ws \<Rightarrow> (x # w) # ws))"

definition class_tokens :: "node \<Rightarrow> string list" where
  "class_tokens n =
     (case attr ''className'' n of
        Some (Str s) \<Rightarrow> filter (\<lambda>w. w \<noteq> []) (split_on CHR '' '' s)
      | Some (Num k) \<Rightarrow> []
      | None \<Rightarrow> [])"

fun strip_prefix :: "string \<Rightarrow> string \<Rightarrow> string option" where
  "strip_prefix [] s = Some s"
| "strip_prefix (p # ps) [] = None"
| "strip_prefix (p # ps) (x # xs) = (if p = x then strip_prefix ps xs else None)"

definition sm_min :: nat where
  "sm_min = 640"

definition lg_min :: nat where
  "lg_min = 1024"

definition has_variant :: "string \<Rightarrow> bool" where
  "has_variant u = (CHR '':'' \<in> set u)"

text \<open>
  The utilities in force on an element at viewport width \<open>w\<close>, in cascade order (a
  later entry overrides an earlier one of the same property); \<open>hover\<close> says whether the
  pointer is over the enclosing group.
\<close>

definition utilities :: "bool \<Rightarrow> nat \<Rightarrow> node \<Rightarrow> string list" where
  "utilities hover w n =
     (let cs = class_tokens n in
        filter (\<lambda>u. \<not> has_variant u) cs
        @ (if hover then List.map_filter (strip_prefix ''group-hover:'') cs else [])
        @ (if sm_min \<le> w then List.map_filter (strip_prefix ''sm:'') cs else [])
        @ (if lg_min \<le> w then List.map_filter (strip_prefix ''lg:'') cs else []))"

text \<open>
  The width enters \<open>utilities\<close> only through the two breakpoint tests, so every width
  behaves like one of three: 0 (below \<^verbatim>\<open>sm\<close>), 640 or 1024.
\<close>

definition regime :: "nat \<Rightarrow> nat" where
  "regime w = (if lg_min \<le> w then lg_min else if sm_min \<le> w then sm_min else 0)"

definition last_some :: "('a \<Rightarrow> 'b option) \<Rightarrow> 'a list \<Rightarrow> 'b option" where
  "last_some f us = (case rev (List.map_filter f us) of [] \<Rightarrow> None | x # xs \<Rightarrow> Some x)"

subsection \<open>Display\<close>

text \<open>
  \<^verbatim>\<open>hidden\<close> is \<^verbatim>\<open>display: none\<close>; \<^verbatim>\<open>block\<close>, \<^verbatim>\<open>grid\<close> and
  \<^verbatim>\<open>inline-flex\<close> generate a box. An element with no display utility is displayed.
\<close>

definition display_of :: "string \<Rightarrow> bool option" where
  "display_of u =
     (if u = ''hidden'' then Some False
      else if u = ''block'' \<or> u = ''grid'' \<or> u = ''inline-flex'' then Some True
      else None)"

definition displayed :: "nat \<Rightarrow> node \<Rightarrow> bool" where
  "displayed w n = (case last_some display_of (utilities False w n) of None \<Rightarrow> True | Some b \<Rightarrow> b)"

subsection \<open>Grid tracks and spans\<close>

datatype track = Fr nat | Px nat

definition digit :: "char \<Rightarrow> nat option" where
  "digit c =
     map_of
       [(CHR ''0'', 0), (CHR ''1'', 1), (CHR ''2'', 2), (CHR ''3'', 3), (CHR ''4'', 4),
        (CHR ''5'', 5), (CHR ''6'', 6), (CHR ''7'', 7), (CHR ''8'', 8), (CHR ''9'', 9)] c"

text \<open>\<open>number acc s\<close> reads the decimal digits at the front of \<open>s\<close> and returns the rest.\<close>

fun number :: "nat \<Rightarrow> string \<Rightarrow> nat \<times> string" where
  "number acc [] = (acc, [])"
| "number acc (c # cs) =
     (case digit c of None \<Rightarrow> (acc, c # cs) | Some d \<Rightarrow> number (10 * acc + d) cs)"

definition parse_nat :: "string \<Rightarrow> nat option" where
  "parse_nat s =
     (case s of [] \<Rightarrow> None
      | c # cs \<Rightarrow> (case digit c of None \<Rightarrow> None
          | Some d \<Rightarrow> (case number 0 s of (n, rest) \<Rightarrow> if rest = [] then Some n else None)))"

definition parse_track :: "string \<Rightarrow> track option" where
  "parse_track s =
     (case s of [] \<Rightarrow> None
      | c # cs \<Rightarrow> (case digit c of None \<Rightarrow> None
          | Some d \<Rightarrow> (case number 0 s of (n, rest) \<Rightarrow>
              if rest = ''fr'' then Some (Fr n)
              else if rest = ''px'' then Some (Px n)
              else None)))"

fun all_some :: "'a option list \<Rightarrow> 'a list option" where
  "all_some [] = Some []"
| "all_some (None # xs) = None"
| "all_some (Some x # xs) = (case all_some xs of None \<Rightarrow> None | Some ys \<Rightarrow> Some (x # ys))"

text \<open>
  \<^verbatim>\<open>grid-cols-N\<close> is \<open>N\<close> equal columns; \<^verbatim>\<open>grid-cols-[a_b_...]\<close> is the
  track list \<^verbatim>\<open>a b ...\<close> (an underscore stands for a space).
\<close>

definition bracketed :: "string \<Rightarrow> string option" where
  "bracketed s =
     (case s of [] \<Rightarrow> None
      | c # cs \<Rightarrow> if c = CHR ''['' \<and> cs \<noteq> [] \<and> last cs = CHR '']'' then Some (butlast cs) else None)"

definition grid_cols_of :: "string \<Rightarrow> track list option" where
  "grid_cols_of u =
     (case strip_prefix ''grid-cols-'' u of
        None \<Rightarrow> None
      | Some r \<Rightarrow>
          (case bracketed r of
             Some body \<Rightarrow> all_some (map parse_track (split_on CHR ''_'' body))
           | None \<Rightarrow> map_option (\<lambda>n. replicate n (Fr 1)) (parse_nat r)))"

definition col_span_of :: "string \<Rightarrow> nat option" where
  "col_span_of u =
     (case strip_prefix ''col-span-'' u of None \<Rightarrow> None | Some r \<Rightarrow> parse_nat r)"

text \<open>A grid with no column utility has one column; an item with no span utility spans one.\<close>

definition template :: "nat \<Rightarrow> node \<Rightarrow> track list" where
  "template w g = (case last_some grid_cols_of (utilities False w g) of None \<Rightarrow> [Fr 1] | Some ts \<Rightarrow> ts)"

definition span :: "nat \<Rightarrow> node \<Rightarrow> nat" where
  "span w n = (case last_some col_span_of (utilities False w n) of None \<Rightarrow> 1 | Some k \<Rightarrow> k)"

subsection \<open>Placement\<close>

text \<open>
  Grid items without an explicit position are placed in source order, row by row
  (\<^verbatim>\<open>grid-auto-flow: row\<close>): an item goes right of the previous one when its span
  still fits in the row, and starts the next row otherwise. \<open>place n r c spans\<close> gives
  each item its (row, first column, span), both counted from 0, in a grid of \<open>n\<close>
  columns with the cursor at row \<open>r\<close>, column \<open>c\<close>.
\<close>

fun place :: "nat \<Rightarrow> nat \<Rightarrow> nat \<Rightarrow> nat list \<Rightarrow> (nat \<times> nat \<times> nat) list" where
  "place n r c [] = []"
| "place n r c (s # ss) =
     (if 0 < c \<and> n < c + s then (r + 1, 0, s) # place n (r + 1) s ss
      else (r, c, s) # place n r (c + s) ss)"

definition grids :: "bool \<Rightarrow> nat \<Rightarrow> node \<Rightarrow> node list" where
  "grids hover w t = filter (\<lambda>n. ''grid'' \<in> set (utilities hover w n)) (descendants t)"

datatype slot = HeadingSlot | SeparatorSlot | MetricSlot string string | OtherSlot

definition slot_of :: "node \<Rightarrow> slot" where
  "slot_of n =
     (if heading_of n \<noteq> None then HeadingSlot
      else if tag n = ''svg'' then SeparatorSlot
      else (case metric_of n of Some (v, l) \<Rightarrow> MetricSlot v l | None \<Rightarrow> OtherSlot))"

text \<open>
  The layout of the first grid of a tree at width \<open>w\<close>: for each displayed item, in
  source order, its row, first column, span, and what it is.
\<close>

definition layout :: "nat \<Rightarrow> node \<Rightarrow> (nat \<times> nat \<times> nat \<times> slot) list" where
  "layout w t =
     (case grids False w t of
        [] \<Rightarrow> []
      | g # gs \<Rightarrow>
          (let items = filter (displayed w) (children g);
               cells = place (length (template w g)) 0 0 (map (span w) items)
           in map (\<lambda>((r, c, s), n). (r, c, s, slot_of n)) (zip cells items)))"

definition grid_template :: "nat \<Rightarrow> node \<Rightarrow> track list" where
  "grid_template w t = (case grids False w t of [] \<Rightarrow> [] | g # gs \<Rightarrow> template w g)"

text \<open>
  A layout is a single column when every item starts in the first column and no two
  items share a row.
\<close>

definition single_column :: "(nat \<times> nat \<times> nat \<times> slot) list \<Rightarrow> bool" where
  "single_column cells =
     (list_all (\<lambda>(r, c, s, k). c = 0) cells \<and> distinct (map (\<lambda>(r, c, s, k). r) cells))"

subsection \<open>Gradient\<close>

text \<open>
  \<^verbatim>\<open>bg-gradient-to-D from-[A] to-[B]\<close> paints a linear gradient towards side
  \<^verbatim>\<open>D\<close> (\<^verbatim>\<open>r\<close>: left to right) from colour \<^verbatim>\<open>A\<close> to colour \<^verbatim>\<open>B\<close>;
  with \<^verbatim>\<open>bg-clip-text\<close> and \<^verbatim>\<open>text-transparent\<close> the gradient shows through
  the glyphs of the text. \<open>gradient_of\<close> gives (side, start colour, end colour).
\<close>

definition colour_of :: "string \<Rightarrow> string \<Rightarrow> string option" where
  "colour_of prefix u =
     (case strip_prefix prefix u of None \<Rightarrow> None | Some r \<Rightarrow> bracketed r)"

definition gradient_of :: "nat \<Rightarrow> node \<Rightarrow> (string \<times> string \<times> string) option" where
  "gradient_of w n =
     (let us = utilities False w n in
        if ''bg-clip-text'' \<in> set us \<and> ''text-transparent'' \<in> set us
        then (case (last_some (strip_prefix ''bg-gradient-to-'') us,
                    last_some (colour_of ''from-'') us,
                    last_some (colour_of ''to-'') us) of
                (Some d, Some a, Some b) \<Rightarrow> Some (d, a, b)
              | _ \<Rightarrow> None)
        else None)"

text \<open>The gradient of the value element (the first child) of each metric block.\<close>

definition value_gradients :: "nat \<Rightarrow> node \<Rightarrow> (string \<times> string \<times> string) option list" where
  "value_gradients w t =
     map (\<lambda>b. case children b of [] \<Rightarrow> None | v # rest \<Rightarrow> gradient_of w v) (metric_blocks t)"

subsection \<open>The link and its hover shift\<close>

text \<open>
  \<^verbatim>\<open>left-K\<close> offsets a \<^verbatim>\<open>relative\<close> element by step \<open>K\<close> of the spacing scale.
  An attribute whose name starts with \<^verbatim>\<open>on\<close> is an event handler.
\<close>

definition left_offset :: "bool \<Rightarrow> nat \<Rightarrow> node \<Rightarrow> nat option" where
  "left_offset hover w n =
     last_some (\<lambda>u. case strip_prefix ''left-'' u of None \<Rightarrow> None | Some r \<Rightarrow> parse_nat r)
       (utilities hover w n)"

definition handlers :: "node \<Rightarrow> string list" where
  "handlers t = filter (\<lambda>k. take 2 k = ''on'') (concat (map (\<lambda>n. map fst (attrs n)) (descendants t)))"

definition links :: "node \<Rightarrow> node list" where
  "links t = elements_named ''Link'' t"

text \<open>
  \<open>link_of\<close> reads a link: its target, its text, and what follows the text inside it.
  (\<^verbatim>\<open>Link\<close> is the framework's component; it renders an anchor with the same
  \<^verbatim>\<open>href\<close> and children.)
\<close>

fun link_of :: "node \<Rightarrow> (attr_value option \<times> string \<times> node list) option" where
  "link_of (Element t as (Text c # rest)) =
     (if t = ''Link'' then Some (map_of as ''href'', c, rest) else None)"
| "link_of n = None"

section \<open>Narration\<close>

text \<open>
  An element is marked decorative by \<^verbatim>\<open>aria-hidden='true'\<close> or by the role
  \<^verbatim>\<open>presentation\<close> (or its synonym \<^verbatim>\<open>none\<close>). The narration tree at width \<open>w\<close>
  leaves out every subtree whose root is marked so or is not displayed.
\<close>

definition marked_decorative :: "node \<Rightarrow> bool" where
  "marked_decorative n =
     (attr ''aria-hidden'' n = Some (Str ''true'')
      \<or> attr ''role'' n = Some (Str ''presentation'')
      \<or> attr ''role'' n = Some (Str ''none''))"

fun narrated :: "nat \<Rightarrow> node \<Rightarrow> node list" where
  "narrated w (Text s) = [Text s]"
| "narrated w (Element t as cs) =
     (if marked_decorative (Element t as cs) \<or> \<not> displayed w (Element t as cs) then []
      else Element t as cs # concat (map (narrated w) cs))"

definition narrated_texts :: "nat \<Rightarrow> node \<Rightarrow> string list" where
  "narrated_texts w t =
     map (\<lambda>m. the (text_of m)) (filter (\<lambda>m. text_of m \<noteq> None) (narrated w t))"

definition glyphs :: "node \<Rightarrow> node list" where
  "glyphs t = elements_named ''svg'' t"

section \<open>Facts about the component\<close>

subsection \<open>Width regimes\<close>

lemma utilities_regime: "utilities h (regime w) n = utilities h w n"
  by (simp add: utilities_def regime_def sm_min_def lg_min_def)

lemma displayed_regime: "displayed (regime w) = displayed w"
  by (rule ext) (simp add: displayed_def utilities_regime)

lemma template_regime: "template (regime w) = template w"
  by (rule ext) (simp add: template_def utilities_regime)

lemma span_regime: "span (regime w) = span w"
  by (rule ext) (simp add: span_def utilities_regime)

lemma grids_regime: "grids h (regime w) = grids h w"
  by (rule ext) (simp add: grids_def utilities_regime)

lemma gradient_of_regime: "gradient_of (regime w) = gradient_of w"
  by (rule ext) (simp add: gradient_of_def utilities_regime)

lemma narrated_regime: "narrated (regime w) n = narrated w n"
proof (induction n)
  case (Element t as cs)
  have same: "map (narrated (regime w)) cs = map (narrated w) cs"
    using Element by (simp cong: map_cong)
  show ?case by (simp only: narrated.simps displayed_regime same)
next
  case (Text s)
  show ?case by simp
qed

lemma layout_regime: "layout (regime w) t = layout w t"
  by (simp only: layout_def grids_regime template_regime span_regime displayed_regime)

lemma grid_template_regime: "grid_template (regime w) t = grid_template w t"
  by (simp only: grid_template_def grids_regime template_regime)

lemma value_gradients_regime: "value_gradients (regime w) t = value_gradients w t"
  by (simp only: value_gradients_def gradient_of_regime)

lemma narrated_texts_regime: "narrated_texts (regime w) t = narrated_texts w t"
  by (simp only: narrated_texts_def narrated_regime)

lemma regime_narrow: "w < 1024 \<Longrightarrow> regime w = 0 \<or> regime w = 640"
  by (simp add: regime_def sm_min_def lg_min_def)

lemma regime_wide: "1024 \<le> w \<Longrightarrow> regime w = 1024"
  by (simp add: regime_def sm_min_def lg_min_def)

lemma regime_cases: "regime w = 0 \<or> regime w = 640 \<or> regime w = 1024"
  by (simp add: regime_def sm_min_def lg_min_def)

subsection \<open>The blocks of the component\<close>

lemma component_metric_blocks:
  "metric_blocks CommunitySupportedNumbers = [stars_block, discord_block, contributors_block]"
  by code_simp

lemma component_rendered_metrics:
  "rendered_metrics CommunitySupportedNumbers =
     [(''20k'', ''Github Stars''), (''10k'', ''Discord Users''), (''100'', ''Contributors'')]"
  by code_simp

lemma component_heading_blocks:
  "heading_blocks CommunitySupportedNumbers = [heading_block]"
  by code_simp

lemma component_heading:
  "heading_of heading_block = Some (''Supported by the community'', Some (Str ''#''), ''Join them now'')"
  by code_simp

lemma component_links:
  "map link_of (links CommunitySupportedNumbers) =
     [Some (Some (Str ''#''), ''Join them now'', [right_arrow])]"
  by code_simp

lemma component_texts:
  "texts CommunitySupportedNumbers =
     [''Supported by the community'', ''Join them now'', ''20k'', ''Github Stars'',
      ''10k'', ''Discord Users'', ''100'', ''Contributors'']"
  by code_simp

lemma component_glyphs: "glyphs CommunitySupportedNumbers = [right_arrow, chevron]"
  by code_simp

lemma component_handlers: "handlers CommunitySupportedNumbers = []"
  by code_simp

lemma reference_metrics:
  "map (\<lambda>m. (val m, label m)) (metrics reference_config) =
     [(''20k'', ''Github Stars''), (''10k'', ''Discord Users''), (''100'', ''Contributors'')]"
  by (simp add: reference_config_def)

subsection \<open>The layout in each regime\<close>

lemma layout_0:
  "layout 0 CommunitySupportedNumbers =
     [(0, 0, 3, HeadingSlot),
      (1, 0, 1, MetricSlot ''20k'' ''Github Stars''),
      (1, 1, 1, MetricSlot ''10k'' ''Discord Users''),
      (1, 2, 1, MetricSlot ''100'' ''Contributors'')]"
  by code_simp

lemma layout_640:
  "layout 640 CommunitySupportedNumbers =
     [(0, 0, 3, HeadingSlot),
      (1, 0, 1, MetricSlot ''20k'' ''Github Stars''),
      (1, 1, 1, MetricSlot ''10k'' ''Discord Users''),
      (1, 2, 1, MetricSlot ''100'' ''Contributors'')]"
  by code_simp

lemma layout_1024:
  "layout 1024 CommunitySupportedNumbers =
     [(0, 0, 1, HeadingSlot),
      (0, 1, 1, SeparatorSlot),
      (0, 2, 1, MetricSlot ''20k'' ''Github Stars''),
      (0, 3, 1, MetricSlot ''10k'' ''Discord Users''),
      (0, 4, 1, MetricSlot ''100'' ''Contributors'')]"
  by code_simp

lemma grid_template_0: "grid_template 0 CommunitySupportedNumbers = [Fr 1, Fr 1, Fr 1]"
  by code_simp

lemma grid_template_640: "grid_template 640 CommunitySupportedNumbers = [Fr 1, Fr 1, Fr 1]"
  by code_simp

lemma grid_template_1024:
  "grid_template 1024 CommunitySupportedNumbers = [Fr 1, Px 51, Fr 1, Fr 1, Fr 1]"
  by code_simp

lemma layout_narrow:
  assumes "w < 1024"
  shows "layout w CommunitySupportedNumbers =
     [(0, 0, 3, HeadingSlot),
      (1, 0, 1, MetricSlot ''20k'' ''Github Stars''),
      (1, 1, 1, MetricSlot ''10k'' ''Discord Users''),
      (1, 2, 1, MetricSlot ''100'' ''Contributors'')]"
proof -
  from assms have "regime w = 0 \<or> regime w = 640" by (rule regime_narrow)
  then have "layout (regime w) CommunitySupportedNumbers = layout 0 CommunitySupportedNumbers"
    by (auto simp: layout_0 layout_640)
  then show ?thesis by (simp only: layout_regime layout_0)
qed

lemma grid_template_narrow:
  assumes "w < 1024"
  shows "grid_template w CommunitySupportedNumbers = [Fr 1, Fr 1, Fr 1]"
proof -
  from assms have "regime w = 0 \<or> regime w = 640" by (rule regime_narrow)
  then have "grid_template (regime w) CommunitySupportedNumbers = [Fr 1, Fr 1, Fr 1]"
    by (auto simp: grid_template_0 grid_template_640)
  then show ?thesis by (simp only: grid_template_regime)
qed

lemma layout_wide:
  assumes "1024 \<le> w"
  shows "layout w CommunitySupportedNumbers =
     [(0, 0, 1, HeadingSlot),
      (0, 1, 1, SeparatorSlot),
      (0, 2, 1, MetricSlot ''20k'' ''Github Stars''),
      (0, 3, 1, MetricSlot ''10k'' ''Discord Users''),
      (0, 4, 1, MetricSlot ''100'' ''Contributors'')]"
proof -
  have "layout (regime w) CommunitySupportedNumbers = layout 1024 CommunitySupportedNumbers"
    by (simp only: regime_wide [OF assms])
  then show ?thesis by (simp only: layout_regime layout_1024)
qed

lemma grid_template_wide:
  assumes "1024 \<le> w"
  shows "grid_template w CommunitySupportedNumbers = [Fr 1, Px 51, Fr 1, Fr 1, Fr 1]"
proof -
  have "grid_template (regime w) CommunitySupportedNumbers = grid_template 1024 CommunitySupportedNumbers"
    by (simp only: regime_wide [OF assms])
  then show ?thesis by (simp only: grid_template_regime grid_template_1024)
qed


subsection \<open>Narration, gradients and hover in each regime\<close>

lemma renders_replicate: "renders n cfg = replicate n (MetricsStrip cfg)"
  by (induction n) simp_all

lemma narrated_texts_0:
  "narrated_texts 0 CommunitySupportedNumbers = texts CommunitySupportedNumbers"
  by code_simp

lemma narrated_texts_640:
  "narrated_texts 640 CommunitySupportedNumbers = texts CommunitySupportedNumbers"
  by code_simp

lemma narrated_texts_1024:
  "narrated_texts 1024 CommunitySupportedNumbers = texts CommunitySupportedNumbers"
  by code_simp

lemma narrated_texts_all:
  "narrated_texts w CommunitySupportedNumbers = texts CommunitySupportedNumbers"
proof -
  have "narrated_texts (regime w) CommunitySupportedNumbers = texts CommunitySupportedNumbers"
    using regime_cases [of w]
    by (auto simp: narrated_texts_0 narrated_texts_640 narrated_texts_1024)
  then show ?thesis by (simp only: narrated_texts_regime)
qed

lemma arrow_narrated_0: "right_arrow \<in> set (narrated 0 CommunitySupportedNumbers)"
  by code_simp

lemma arrow_narrated_640: "right_arrow \<in> set (narrated 640 CommunitySupportedNumbers)"
  by code_simp

lemma arrow_narrated_1024: "right_arrow \<in> set (narrated 1024 CommunitySupportedNumbers)"
  by code_simp

lemma arrow_narrated: "right_arrow \<in> set (narrated w CommunitySupportedNumbers)"
proof -
  have "right_arrow \<in> set (narrated (regime w) CommunitySupportedNumbers)"
    using regime_cases [of w]
    by (auto simp: arrow_narrated_0 arrow_narrated_640 arrow_narrated_1024)
  then show ?thesis by (simp only: narrated_regime)
qed

lemma chevron_narrated_0: "chevron \<notin> set (narrated 0 CommunitySupportedNumbers)"
  by code_simp

lemma chevron_narrated_640: "chevron \<notin> set (narrated 640 CommunitySupportedNumbers)"
  by code_simp

lemma chevron_narrated_1024: "chevron \<in> set (narrated 1024 CommunitySupportedNumbers)"
  by code_simp

lemma chevron_narrated:
  "(chevron \<in> set (narrated w CommunitySupportedNumbers)) = (1024 \<le> w)"
proof (cases "1024 \<le> w")
  case True
  then have "chevron \<in> set (narrated (regime w) CommunitySupportedNumbers)"
    by (simp only: regime_wide chevron_narrated_1024)
  with True show ?thesis by (simp only: narrated_regime)
next
  case False
  then have "regime w = 0 \<or> regime w = 640" by (simp add: regime_narrow)
  then have "chevron \<notin> set (narrated (regime w) CommunitySupportedNumbers)"
    by (auto simp: chevron_narrated_0 chevron_narrated_640)
  with False show ?thesis by (simp only: narrated_regime)
qed

lemma no_decorative_mark: "\<not> marked_decorative right_arrow \<and> \<not> marked_decorative chevron"
  by code_simp

lemma glyph_attribute_names:
  "map fst (attrs right_arrow) =
     [''className'', ''width'', ''height'', ''viewBox'', ''fill'', ''stroke'', ''xmlns''] \<and>
   map fst (attrs chevron) =
     [''className'', ''width'', ''height'', ''viewBox'', ''fill'', ''xmlns'']"
  by (simp add: right_arrow_def chevron_def)

lemma value_gradients_0:
  "value_gradients 0 CommunitySupportedNumbers =
     [Some (''r'', ''#FB540C'', ''#DD7D31''),
      Some (''r'', ''#B59C53'', ''#A5A76B''),
      Some (''r'', ''#93B083'', ''#7BBB9F'')]"
  by code_simp

lemma value_gradients_640:
  "value_gradients 640 CommunitySupportedNumbers =
     [Some (''r'', ''#FB540C'', ''#DD7D31''),
      Some (''r'', ''#B59C53'', ''#A5A76B''),
      Some (''r'', ''#93B083'', ''#7BBB9F'')]"
  by code_simp

lemma value_gradients_1024:
  "value_gradients 1024 CommunitySupportedNumbers =
     [Some (''r'', ''#FB540C'', ''#DD7D31''),
      Some (''r'', ''#B59C53'', ''#A5A76B''),
      Some (''r'', ''#93B083'', ''#7BBB9F'')]"
  by code_simp

lemma value_gradients_all:
  "value_gradients w CommunitySupportedNumbers =
     [Some (''r'', ''#FB540C'', ''#DD7D31''),
      Some (''r'', ''#B59C53'', ''#A5A76B''),
      Some (''r'', ''#93B083'', ''#7BBB9F'')]"
proof -
  have "value_gradients (regime w) CommunitySupportedNumbers =
     [Some (''r'', ''#FB540C'', ''#DD7D31''),
      Some (''r'', ''#B59C53'', ''#A5A76B''),
      Some (''r'', ''#93B083'', ''#7BBB9F'')]"
    using regime_cases [of w]
    by (auto simp: value_gradients_0 value_gradients_640 value_gradients_1024)
  then show ?thesis by (simp only: value_gradients_regime)
qed

lemma arrow_tokens:
  "class_tokens right_arrow =
     [''relative'', ''left-2'', ''text-[#D8D8D8]'', ''transition-all'', ''duration-300'',
      ''ease-in-out'', ''group-hover:left-4'']"
  by code_simp

lemma arrow_utilities:
  "utilities hover w right_arrow =
     [''relative'', ''left-2'', ''text-[#D8D8D8]'', ''transition-all'', ''duration-300'',
      ''ease-in-out''] @ (if hover then [''left-4''] else [])"
  by (simp add: utilities_def arrow_tokens has_variant_def List.map_filter_def Let_def)

lemma arrow_left_offset:
  "left_offset hover w right_arrow = Some (if hover then 4 else 2)"
  by (simp add: left_offset_def arrow_utilities last_some_def List.map_filter_def
      parse_nat_def digit_def)

lemma link_group:
  "map class_tokens (links CommunitySupportedNumbers) =
     [[''group'', ''mt-3'', ''inline-flex'', ''items-center'']]"
  by code_simp


section \<open>The claims\<close>

text \<open>
  C1 (as stated): for a metrics sequence of length N the render shows exactly N metric
  blocks, in input order. This fails for a configuration with one metric: the render
  still shows the three blocks of the source.
\<close>

theorem order_preservation_counterexample:
  "rendered_metrics (MetricsStrip (reference_config
       \<lparr>metrics := [\<lparr>val = ''5k'', label = ''Forks'',
                     gradientStart = ''#FFFFFF'', gradientEnd = ''#000000''\<rparr>]\<rparr>))
   \<noteq> map (\<lambda>m. (val m, label m)) (metrics (reference_config
       \<lparr>metrics := [\<lparr>val = ''5k'', label = ''Forks'',
                     gradientStart = ''#FFFFFF'', gradientEnd = ''#000000''\<rparr>]\<rparr>))
   \<and> length (metric_blocks (MetricsStrip (reference_config
       \<lparr>metrics := [\<lparr>val = ''5k'', label = ''Forks'',
                     gradientStart = ''#FFFFFF'', gradientEnd = ''#000000''\<rparr>]\<rparr>)))
   \<noteq> length (metrics (reference_config
       \<lparr>metrics := [\<lparr>val = ''5k'', label = ''Forks'',
                     gradientStart = ''#FFFFFF'', gradientEnd = ''#000000''\<rparr>]\<rparr>))"
  by (simp add: MetricsStrip_def component_rendered_metrics component_metric_blocks)

text \<open>
  C1 (amended): whatever the metrics sequence of the configuration, the render shows
  exactly three metric blocks, those of the reference content, in its order
  (20k Github Stars, 10k Discord Users, 100 Contributors).
\<close>

theorem metric_blocks_fixed:
  "length (metric_blocks (MetricsStrip cfg)) = 3 \<and>
   rendered_metrics (MetricsStrip cfg) =
     [(''20k'', ''Github Stars''), (''10k'', ''Discord Users''), (''100'', ''Contributors'')] \<and>
   rendered_metrics (MetricsStrip cfg) = map (\<lambda>m. (val m, label m)) (metrics reference_config)"
  by (simp add: MetricsStrip_def component_rendered_metrics component_metric_blocks
      reference_metrics)

text \<open>
  C2: for the literal reference configuration (whatever its gradient colours), the
  render shows the captions Github Stars, Discord Users, Contributors in that order,
  each paired with its value 20k, 10k, 100.
\<close>

theorem reference_labels_paired:
  "rendered_metrics (MetricsStrip
      \<lparr>heading = ''Supported by the community'', ctaLabel = ''Join them now'', ctaHref = ''#'',
       metrics = [\<lparr>val = ''20k'', label = ''Github Stars'', gradientStart = a1, gradientEnd = b1\<rparr>,
                  \<lparr>val = ''10k'', label = ''Discord Users'', gradientStart = a2, gradientEnd = b2\<rparr>,
                  \<lparr>val = ''100'', label = ''Contributors'', gradientStart = a3, gradientEnd = b3\<rparr>]\<rparr>)
   = [(''20k'', ''Github Stars''), (''10k'', ''Discord Users''), (''100'', ''Contributors'')]
   \<and> map snd (rendered_metrics (MetricsStrip
      \<lparr>heading = ''Supported by the community'', ctaLabel = ''Join them now'', ctaHref = ''#'',
       metrics = [\<lparr>val = ''20k'', label = ''Github Stars'', gradientStart = a1, gradientEnd = b1\<rparr>,
                  \<lparr>val = ''10k'', label = ''Discord Users'', gradientStart = a2, gradientEnd = b2\<rparr>,
                  \<lparr>val = ''100'', label = ''Contributors'', gradientStart = a3, gradientEnd = b3\<rparr>]\<rparr>))
   = [''Github Stars'', ''Discord Users'', ''Contributors'']"
  by (simp add: MetricsStrip_def component_rendered_metrics)

text \<open>
  C3 (as stated): with an empty metrics sequence the render shows zero metric blocks.
  This fails: the three blocks of the source are still there.
\<close>

theorem empty_metrics_counterexample:
  "metric_blocks (MetricsStrip (reference_config\<lparr>metrics := []\<rparr>)) \<noteq> []"
  by (simp add: MetricsStrip_def component_metric_blocks)

text \<open>
  C3 (amended): the render returns a tree for every configuration (the body is one
  literal expression, with no failing path), also with an empty caption or an empty
  metrics sequence; with \<open>metrics = []\<close> it shows the heading/CTA block and the three
  fixed metric blocks.
\<close>

theorem render_total_fixed:
  "map heading_of (heading_blocks (MetricsStrip cfg)) =
     [Some (''Supported by the community'', Some (Str ''#''), ''Join them now'')] \<and>
   length (metric_blocks (MetricsStrip cfg)) = 3 \<and>
   length (heading_blocks (MetricsStrip (cfg\<lparr>metrics := []\<rparr>))) = 1 \<and>
   length (metric_blocks (MetricsStrip (cfg\<lparr>metrics := []\<rparr>))) = 3"
  by (simp add: MetricsStrip_def component_heading_blocks component_heading
      component_metric_blocks)

text \<open>
  C4: any two passes of a re-render over an unchanged configuration return the same
  tree, whatever the number of passes; the tree does not depend on the pass.
\<close>

theorem rerender_identical:
  "i < n \<Longrightarrow> j < n \<Longrightarrow> renders n cfg ! i = renders n cfg ! j"
  by (simp add: renders_replicate)

theorem rerender_identical_witness:
  "(0::nat) < 3 \<and> (2::nat) < 3 \<and>
   renders 3 reference_config ! 0 = renders 3 reference_config ! 2"
  using rerender_identical [of 0 3 2 reference_config] by simp

text \<open>
  C5 (as stated): the glyphs are in the markup but not in the narration tree. This fails
  for the arrow glyph on a phone-sized viewport (375px): it is in both.
\<close>

theorem glyph_narration_counterexample:
  "right_arrow \<in> set (glyphs (MetricsStrip reference_config)) \<and>
   right_arrow \<in> set (narrated 375 (MetricsStrip reference_config)) \<and>
   \<not> marked_decorative right_arrow"
  by (simp add: MetricsStrip_def component_glyphs arrow_narrated no_decorative_mark)

text \<open>
  C5 (amended): the arrow and the separator glyph are in the markup as \<^verbatim>\<open>svg\<close>
  elements, and neither is marked decorative (their attributes are the class, the
  geometry and the paint only). The arrow is in the narration tree at every width; the
  separator is left out exactly below 1024px, where it is not displayed. All text of
  the render (heading, link text, each value and caption) is in the narration tree at
  every width.
\<close>

theorem glyphs_unmarked_texts_narrated:
  "glyphs (MetricsStrip cfg) = [right_arrow, chevron] \<and>
   \<not> marked_decorative right_arrow \<and> \<not> marked_decorative chevron \<and>
   map fst (attrs right_arrow) =
     [''className'', ''width'', ''height'', ''viewBox'', ''fill'', ''stroke'', ''xmlns''] \<and>
   map fst (attrs chevron) =
     [''className'', ''width'', ''height'', ''viewBox'', ''fill'', ''xmlns''] \<and>
   right_arrow \<in> set (narrated w (MetricsStrip cfg)) \<and>
   (chevron \<in> set (narrated w (MetricsStrip cfg))) = (1024 \<le> w) \<and>
   narrated_texts w (MetricsStrip cfg) = texts (MetricsStrip cfg) \<and>
   texts (MetricsStrip cfg) =
     [''Supported by the community'', ''Join them now'', ''20k'', ''Github Stars'',
      ''10k'', ''Discord Users'', ''100'', ''Contributors'']"
  by (simp add: MetricsStrip_def component_glyphs no_decorative_mark glyph_attribute_names
      arrow_narrated chevron_narrated narrated_texts_all component_texts)

text \<open>
  C6 (as stated): on a narrow viewport the heading block and the metric blocks form a
  single column. This fails at 375px: the three metric blocks share the second row.
\<close>

theorem narrow_single_column_counterexample:
  "\<not> single_column (layout 375 (MetricsStrip reference_config))"
  by (simp add: MetricsStrip_def layout_narrow single_column_def)

text \<open>
  C6 (amended): below 1024px the grid has three equal columns; the heading/CTA block
  spans all three in the first row, the separator is not displayed, and the three
  metric blocks follow in array order side by side in the second row, one per column.
\<close>

theorem narrow_layout:
  "w < 1024 \<Longrightarrow>
   grid_template w (MetricsStrip cfg) = [Fr 1, Fr 1, Fr 1] \<and>
   layout w (MetricsStrip cfg) =
     [(0, 0, 3, HeadingSlot),
      (1, 0, 1, MetricSlot ''20k'' ''Github Stars''),
      (1, 1, 1, MetricSlot ''10k'' ''Discord Users''),
      (1, 2, 1, MetricSlot ''100'' ''Contributors'')]"
  by (simp add: MetricsStrip_def layout_narrow grid_template_narrow)

theorem narrow_layout_witness:
  "(375::nat) < 1024 \<and>
   grid_template 375 (MetricsStrip reference_config) = [Fr 1, Fr 1, Fr 1] \<and>
   layout 375 (MetricsStrip reference_config) =
     [(0, 0, 3, HeadingSlot),
      (1, 0, 1, MetricSlot ''20k'' ''Github Stars''),
      (1, 1, 1, MetricSlot ''10k'' ''Discord Users''),
      (1, 2, 1, MetricSlot ''100'' ''Contributors'')]"
  using narrow_layout [of 375 reference_config] by simp

text \<open>
  C7 (as stated): on a wide viewport the grid follows the template heading, separator,
  then one column for each metric of the input, in input order. This fails at 1280px
  for a configuration with four metrics: the grid has five tracks, not six, and its
  cells after the separator are the three metric blocks of the source.
\<close>

theorem wide_template_counterexample:
  "layout 1280 (MetricsStrip (reference_config
       \<lparr>metrics := metrics reference_config @
          [\<lparr>val = ''5k'', label = ''Forks'',
            gradientStart = ''#FFFFFF'', gradientEnd = ''#000000''\<rparr>]\<rparr>))
   \<noteq> (0, 0, 1, HeadingSlot) # (0, 1, 1, SeparatorSlot) #
       map (\<lambda>(i, m). (0, 2 + i, 1, MetricSlot (val m) (label m)))
         (enumerate 0 (metrics (reference_config
            \<lparr>metrics := metrics reference_config @
               [\<lparr>val = ''5k'', label = ''Forks'',
                 gradientStart = ''#FFFFFF'', gradientEnd = ''#000000''\<rparr>]\<rparr>)))
   \<and> length (grid_template 1280 (MetricsStrip (reference_config
       \<lparr>metrics := metrics reference_config @
          [\<lparr>val = ''5k'', label = ''Forks'',
            gradientStart = ''#FFFFFF'', gradientEnd = ''#000000''\<rparr>]\<rparr>)))
   \<noteq> 2 + length (metrics (reference_config
       \<lparr>metrics := metrics reference_config @
          [\<lparr>val = ''5k'', label = ''Forks'',
            gradientStart = ''#FFFFFF'', gradientEnd = ''#000000''\<rparr>]\<rparr>))"
  by (simp add: MetricsStrip_def layout_wide grid_template_wide reference_config_def)

text \<open>
  C7 (amended): from 1024px the grid has the fixed five-track template heading,
  separator (a fixed 51px track), metric, metric, metric, whatever the metrics of the
  configuration: the heading/CTA block is in the first column, the separator in the
  second, and the three metric blocks of the source (20k Github Stars, 10k Discord
  Users, 100 Contributors) each in its own column, in that order. That is the input
  order when the input is the reference content.
\<close>

theorem wide_layout:
  "1024 \<le> w \<Longrightarrow>
   grid_template w (MetricsStrip cfg) = [Fr 1, Px 51, Fr 1, Fr 1, Fr 1] \<and>
   layout w (MetricsStrip cfg) =
     [(0, 0, 1, HeadingSlot),
      (0, 1, 1, SeparatorSlot),
      (0, 2, 1, MetricSlot ''20k'' ''Github Stars''),
      (0, 3, 1, MetricSlot ''10k'' ''Discord Users''),
      (0, 4, 1, MetricSlot ''100'' ''Contributors'')] \<and>
   layout w (MetricsStrip cfg) =
     (0, 0, 1, HeadingSlot) # (0, 1, 1, SeparatorSlot) #
     map (\<lambda>(i, m). (0, 2 + i, 1, MetricSlot (val m) (label m)))
       (enumerate 0 (metrics reference_config))"
  by (simp add: MetricsStrip_def layout_wide grid_template_wide reference_config_def)

theorem wide_layout_witness:
  "(1024::nat) \<le> 1280 \<and>
   grid_template 1280 (MetricsStrip reference_config) = [Fr 1, Px 51, Fr 1, Fr 1, Fr 1] \<and>
   layout 1280 (MetricsStrip reference_config) =
     [(0, 0, 1, HeadingSlot),
      (0, 1, 1, SeparatorSlot),
      (0, 2, 1, MetricSlot ''20k'' ''Github Stars''),
      (0, 3, 1, MetricSlot ''10k'' ''Discord Users''),
      (0, 4, 1, MetricSlot ''100'' ''Contributors'')]"
  using wide_layout [of 1280 reference_config] by simp

text \<open>
  C8 (as stated): the link of every render points to \<open>ctaHref\<close> and reads \<open>ctaLabel\<close>.
  This fails for a configuration with another target and text: the link still points
  to \<^verbatim>\<open>#\<close> and reads \<^verbatim>\<open>Join them now\<close>.
\<close>

theorem cta_counterexample:
  "map link_of (links (MetricsStrip (reference_config\<lparr>ctaLabel := ''Sign up'', ctaHref := ''/signup''\<rparr>)))
   \<noteq> [Some (Some (Str (ctaHref (reference_config\<lparr>ctaLabel := ''Sign up'', ctaHref := ''/signup''\<rparr>))),
             ctaLabel (reference_config\<lparr>ctaLabel := ''Sign up'', ctaHref := ''/signup''\<rparr>),
             [right_arrow])]"
  by (simp add: MetricsStrip_def component_links)

text \<open>
  C8 (amended): in every render the CTA is one link with the fixed target \<^verbatim>\<open>#\<close> and
  the fixed text \<^verbatim>\<open>Join them now\<close> (the \<open>ctaHref\<close> and \<open>ctaLabel\<close> of the reference
  configuration), followed inside the link by the arrow glyph. The link is a hover
  group; while the pointer is over it the glyph's left offset goes from step 2 to
  step 4, under a transition, and no other utility of the glyph changes. No element of
  the render carries an event handler.
\<close>

theorem cta_link_fixed:
  "map link_of (links (MetricsStrip cfg)) =
     [Some (Some (Str (ctaHref reference_config)), ctaLabel reference_config, [right_arrow])] \<and>
   map link_of (links (MetricsStrip cfg)) =
     [Some (Some (Str ''#''), ''Join them now'', [right_arrow])] \<and>
   map class_tokens (links (MetricsStrip cfg)) =
     [[''group'', ''mt-3'', ''inline-flex'', ''items-center'']] \<and>
   left_offset False w right_arrow = Some 2 \<and>
   left_offset True w right_arrow = Some 4 \<and>
   utilities True w right_arrow = utilities False w right_arrow @ [''left-4''] \<and>
   ''transition-all'' \<in> set (utilities False w right_arrow) \<and>
   handlers (MetricsStrip cfg) = []"
  by (simp add: MetricsStrip_def component_links link_group arrow_left_offset
      arrow_utilities component_handlers reference_config_def)

text \<open>
  C9 (as stated): the value text of each metric is painted with a left-to-right
  gradient from that metric's \<open>gradientStart\<close> to its \<open>gradientEnd\<close>. This fails for
  the reference values and captions given other colours: the render keeps the colours
  written in the source.
\<close>

theorem value_gradient_counterexample:
  "value_gradients 1280 (MetricsStrip
      \<lparr>heading = ''Supported by the community'', ctaLabel = ''Join them now'', ctaHref = ''#'',
       metrics = [\<lparr>val = ''20k'', label = ''Github Stars'',
                   gradientStart = ''#000000'', gradientEnd = ''#FFFFFF''\<rparr>,
                  \<lparr>val = ''10k'', label = ''Discord Users'',
                   gradientStart = ''#111111'', gradientEnd = ''#EEEEEE''\<rparr>,
                  \<lparr>val = ''100'', label = ''Contributors'',
                   gradientStart = ''#222222'', gradientEnd = ''#DDDDDD''\<rparr>]\<rparr>)
   \<noteq> map (\<lambda>m. Some (''r'', gradientStart m, gradientEnd m))
       (metrics
         \<lparr>heading = ''Supported by the community'', ctaLabel = ''Join them now'', ctaHref = ''#'',
          metrics = [\<lparr>val = ''20k'', label = ''Github Stars'',
                      gradientStart = ''#000000'', gradientEnd = ''#FFFFFF''\<rparr>,
                     \<lparr>val = ''10k'', label = ''Discord Users'',
                      gradientStart = ''#111111'', gradientEnd = ''#EEEEEE''\<rparr>,
                     \<lparr>val = ''100'', label = ''Contributors'',
                      gradientStart = ''#222222'', gradientEnd = ''#DDDDDD''\<rparr>]\<rparr>)"
  by (simp add: MetricsStrip_def value_gradients_all)

text \<open>
  C9 (amended): at every width and for every configuration, the value text of each of
  the three metric blocks is painted with a left-to-right gradient between two colours
  written in the source (#FB540C to #DD7D31, #B59C53 to #A5A76B, #93B083 to #7BBB9F, in
  block order), whatever \<open>gradientStart\<close> and \<open>gradientEnd\<close> are; the three colour
  pairs are pairwise different.
\<close>

theorem value_gradients_fixed:
  "value_gradients w (MetricsStrip cfg) =
     [Some (''r'', ''#FB540C'', ''#DD7D31''),
      Some (''r'', ''#B59C53'', ''#A5A76B''),
      Some (''r'', ''#93B083'', ''#7BBB9F'')] \<and>
   distinct (value_gradients w (MetricsStrip cfg))"
  by (simp add: MetricsStrip_def value_gradients_all)

text \<open>
  C10: the component is a constant. The render of any configuration is the render of
  any other, namely the literal tree of the source: its heading, its link text and
  target \<^verbatim>\<open>#\<close>, and the value, caption and gradient of its three metrics are fixed.
\<close>

theorem component_constant:
  "MetricsStrip cfg = MetricsStrip cfg' \<and>
   MetricsStrip cfg = CommunitySupportedNumbers \<and>
   texts (MetricsStrip cfg) =
     [''Supported by the community'', ''Join them now'', ''20k'', ''Github Stars'',
      ''10k'', ''Discord Users'', ''100'', ''Contributors''] \<and>
   map link_of (links (MetricsStrip cfg)) =
     [Some (Some (Str ''#''), ''Join them now'', [right_arrow])] \<and>
   rendered_metrics (MetricsStrip cfg) =
     [(''20k'', ''Github Stars''), (''10k'', ''Discord Users''), (''100'', ''Contributors'')] \<and>
   value_gradients w (MetricsStrip cfg) =
     [Some (''r'', ''#FB540C'', ''#DD7D31''),
      Some (''r'', ''#B59C53'', ''#A5A76B''),
      Some (''r'', ''#93B083'', ''#7BBB9F'')]"
  by (simp add: MetricsStrip_def component_texts component_links component_rendered_metrics
      value_gradients_all)


end
